theory Spec2Isabelle
  imports Main "HOL-Library.Word"
begin

section \<open>Secure system resource of the emulated kernel\<close>

text \<open>
  A shallow embedding of \<^verbatim>\<open>KSecureSystemResource\<close>
  (\<^verbatim>\<open>core/hle/kernel/k_system_resource.cpp\<close>) and of
  \<^verbatim>\<open>ProfileSelect::SelectionComplete\<close>
  (\<^verbatim>\<open>core/hle/service/am/applets/applet_profile_select.cpp\<close>).
  Member functions take the state they read and return the state they leave behind.
\<close>

subsection \<open>Basic types\<close>

type_synonym u8 = "8 word"
type_synonym u32 = "32 word"
type_synonym u64 = "64 word"
type_synonym size_t = "64 word"
type_synonym KVirtualAddress = "64 word"

text \<open>A \<^verbatim>\<open>KResourceLimit*\<close>: the identity of a live Resource Limit object.\<close>

type_synonym limit_ref = nat

text \<open>
  Result codes. The numeric encoding of a code is declared outside the translated files;
  the codes named in the source are constructors, and \<open>ResultOther\<close> stands for any
  further failure code the platform layer may report. Every code except
  \<open>ResultSuccess\<close> is a failure.
\<close>

datatype Result =
    ResultSuccess
  | ResultLimitReached
  | ResultOutOfMemory
  | ResultCancelledByUser
  | ResultOther nat

text \<open>
  \<^verbatim>\<open>Svc::LimitableResource\<close>: the source names the physical-memory kind only.
\<close>

datatype LimitableResource = PhysicalMemoryMax | OtherLimitableResource nat

text \<open>
  Modelled from the spec: the \<^verbatim>\<open>ASSERT\<close> macro (\<^verbatim>\<open>common/assert.h\<close>) is
  missing from the translated files; the specification says a violated assertion is a fatal
  invariant violation which terminates the process. So the run of a member function either
  returns, or ends at a failed assertion with no state left to continue from.
\<close>

datatype 'a exec = AssertionFailed | Returned 'a

subsection \<open>Resource Limit\<close>

text \<open>
  Modelled from the spec: \<^verbatim>\<open>KResourceLimit\<close> is missing from the translated files. A
  Resource Limit holds the current committed amount and the configured maximum per
  resource kind, and an external reference count.
\<close>

record KResourceLimit =
  current_values :: "LimitableResource \<Rightarrow> int"
  limit_values :: "LimitableResource \<Rightarrow> int"
  ref_count :: int

text \<open>
  Modelled from the spec: \<^verbatim>\<open>KResourceLimit::Reserve\<close>, as the constructor of a scoped
  reservation calls it, is missing from the translated files; it adds the amount to the
  committed total of the resource kind and fails, changing nothing, if the new total would
  exceed the configured maximum.
\<close>

definition Reserve :: "KResourceLimit \<Rightarrow> LimitableResource \<Rightarrow> int \<Rightarrow> KResourceLimit option" where
  "Reserve rl which v =
     (if current_values rl which + v \<le> limit_values rl which
      then Some (rl\<lparr>current_values := (current_values rl)(which := current_values rl which + v)\<rparr>)
      else None)"

text \<open>
  Modelled from the spec: \<^verbatim>\<open>KResourceLimit::Release\<close>, which \<^verbatim>\<open>Finalize\<close> calls and
  which an uncommitted scoped reservation calls when it goes out of scope, is missing from
  the translated files; it subtracts the amount from the committed total.
\<close>

definition Release :: "KResourceLimit \<Rightarrow> LimitableResource \<Rightarrow> int \<Rightarrow> KResourceLimit" where
  "Release rl which v =
     rl\<lparr>current_values := (current_values rl)(which := current_values rl which - v)\<rparr>"

text \<open>
  Modelled from the spec: \<^verbatim>\<open>KResourceLimit::Open\<close> is missing from the translated files;
  it takes an external reference.
\<close>

definition Open :: "KResourceLimit \<Rightarrow> KResourceLimit" where
  "Open rl = rl\<lparr>ref_count := ref_count rl + 1\<rparr>"

text \<open>
  Modelled from the spec: \<^verbatim>\<open>KResourceLimit::Close\<close> is missing from the translated files;
  it gives an external reference back.
\<close>

definition Close :: "KResourceLimit \<Rightarrow> KResourceLimit" where
  "Close rl = rl\<lparr>ref_count := ref_count rl - 1\<rparr>"

subsection \<open>Platform layer\<close>

text \<open>
  What \<^verbatim>\<open>k_system_resource.cpp\<close> calls but does not define is a parameter of the
  model: the page size, \<^verbatim>\<open>KPageTableSlabHeap::CalculateReferenceCountSize\<close>, the three
  \<^verbatim>\<open>KSystemControl\<close> functions and the cast of a \<^verbatim>\<open>KMemoryManager::Pool\<close> to
  \<^verbatim>\<open>u32\<close>. \<open>'k\<close> is the state of the platform memory controller and \<open>'pool\<close> the
  pool enumeration. \<^verbatim>\<open>AllocateSecureMemory\<close> receives the current content of its
  out-parameter and returns the result code, the content of the out-parameter afterwards
  and the new controller state.
\<close>

record ('k, 'pool) platform =
  PageSize :: size_t
  CalculateReferenceCountSize :: "size_t \<Rightarrow> size_t"
  SystemControl_CalculateRequiredSecureMemorySize :: "size_t \<Rightarrow> u32 \<Rightarrow> size_t"
  AllocateSecureMemory :: "'k \<Rightarrow> KVirtualAddress \<Rightarrow> size_t \<Rightarrow> u32 \<Rightarrow> Result \<times> KVirtualAddress \<times> 'k"
  FreeSecureMemory :: "'k \<Rightarrow> KVirtualAddress \<Rightarrow> size_t \<Rightarrow> u32 \<Rightarrow> 'k"
  pool_u32 :: "'pool \<Rightarrow> u32"

text \<open>
  Modelled from the spec: \<^verbatim>\<open>Common::AlignUp\<close> (\<^verbatim>\<open>common/alignment.h\<close>) is missing from
  the translated files; the specification says the table size is page-aligned upward. The
  arithmetic is that of \<^verbatim>\<open>size_t\<close>.
\<close>

definition AlignUp :: "size_t \<Rightarrow> size_t \<Rightarrow> size_t" where
  "AlignUp v a = (let m = v mod a in if m = 0 then v else v - m + a)"

subsection \<open>State\<close>

text \<open>
  Modelled from the spec: the Dynamic Page Manager (\<^verbatim>\<open>KDynamicPageManager\<close>) is missing
  from the translated files; it owns the byte range it was initialised over, handed out
  with the given granularity.
\<close>

record KDynamicPageManager =
  dpm_address :: KVirtualAddress
  dpm_size :: size_t
  dpm_align :: size_t

text \<open>
  Modelled from the spec: the slab managers (\<^verbatim>\<open>KMemoryBlockSlabManager\<close>,
  \<^verbatim>\<open>KBlockInfoManager\<close>, \<^verbatim>\<open>KPageTableManager\<close>) and their heaps are missing from the
  translated files; a Slab Manager wraps a heap with a count of live allocations, which
  \<^verbatim>\<open>GetUsed()\<close> reports. Binding a heap or a manager to its page source leaves the count
  as it is.
\<close>

record slab_manager =
  GetUsed :: size_t

text \<open>
  The members of \<^verbatim>\<open>KSecureSystemResource\<close> the two functions read or write. The bindings
  of lines 50 to 63 of the source change none of them.
\<close>

record 'pool KSecureSystemResource =
  m_is_initialized :: bool
  m_resource_limit :: limit_ref
  m_resource_address :: KVirtualAddress
  m_resource_size :: size_t
  m_resource_pool :: 'pool
  m_dynamic_page_manager :: KDynamicPageManager
  m_memory_block_slab_manager :: slab_manager
  m_block_info_manager :: slab_manager
  m_page_table_manager :: slab_manager

text \<open>Calls made on the collaborators, in the order in which they happen.\<close>

datatype call =
    Call_Reserve limit_ref LimitableResource int bool
  | Call_Release limit_ref LimitableResource int
  | Call_Open limit_ref
  | Call_Close limit_ref
  | Call_AllocateSecureMemory size_t u32 Result KVirtualAddress
  | Call_FreeSecureMemory KVirtualAddress size_t u32

text \<open>
  The world a \<^verbatim>\<open>KSecureSystemResource\<close> lives in: the platform memory controller, the
  Resource Limit objects, the object itself and the calls made so far.
\<close>

record ('k, 'pool) system =
  m_kernel :: 'k
  limits :: "limit_ref \<Rightarrow> KResourceLimit"
  this :: "'pool KSecureSystemResource"
  calls :: "call list"

definition committed :: "('k, 'pool) system \<Rightarrow> limit_ref \<Rightarrow> int" where
  "committed s h = current_values (limits s h) PhysicalMemoryMax"

subsection \<open>Calls on the collaborators\<close>

text \<open>
  A call on a Resource Limit acts on the object the pointer names and is entered in the
  list of calls; so is a call on the platform memory controller.
\<close>

definition do_Reserve ::
  "limit_ref \<Rightarrow> LimitableResource \<Rightarrow> int \<Rightarrow> ('k, 'pool) system \<Rightarrow> bool \<times> ('k, 'pool) system" where
  "do_Reserve h which v s =
     (case Reserve (limits s h) which v of
        None \<Rightarrow> (False, s\<lparr>calls := calls s @ [Call_Reserve h which v False]\<rparr>)
      | Some rl \<Rightarrow> (True, s\<lparr>limits := (limits s)(h := rl),
                             calls := calls s @ [Call_Reserve h which v True]\<rparr>))"

definition do_Release ::
  "limit_ref \<Rightarrow> LimitableResource \<Rightarrow> int \<Rightarrow> ('k, 'pool) system \<Rightarrow> ('k, 'pool) system" where
  "do_Release h which v s =
     s\<lparr>limits := (limits s)(h := Release (limits s h) which v),
       calls := calls s @ [Call_Release h which v]\<rparr>"

definition do_Open :: "limit_ref \<Rightarrow> ('k, 'pool) system \<Rightarrow> ('k, 'pool) system" where
  "do_Open h s = s\<lparr>limits := (limits s)(h := Open (limits s h)), calls := calls s @ [Call_Open h]\<rparr>"

definition do_Close :: "limit_ref \<Rightarrow> ('k, 'pool) system \<Rightarrow> ('k, 'pool) system" where
  "do_Close h s = s\<lparr>limits := (limits s)(h := Close (limits s h)), calls := calls s @ [Call_Close h]\<rparr>"

text \<open>
  \<^verbatim>\<open>KSystemControl::AllocateSecureMemory(m_kernel, std::addressof(m_resource_address),
  size, pool)\<close>: the out-parameter is the member \<^verbatim>\<open>m_resource_address\<close>.
\<close>

definition do_AllocateSecureMemory ::
  "('k, 'pool) platform \<Rightarrow> size_t \<Rightarrow> u32 \<Rightarrow> ('k, 'pool) system \<Rightarrow> Result \<times> ('k, 'pool) system" where
  "do_AllocateSecureMemory P sz p s =
     (case AllocateSecureMemory P (m_kernel s) (m_resource_address (this s)) sz p of
        (r, a, k) \<Rightarrow>
          (r, s\<lparr>m_kernel := k,
                this := (this s)\<lparr>m_resource_address := a\<rparr>,
                calls := calls s @ [Call_AllocateSecureMemory sz p r a]\<rparr>))"

definition do_FreeSecureMemory ::
  "('k, 'pool) platform \<Rightarrow> KVirtualAddress \<Rightarrow> size_t \<Rightarrow> u32 \<Rightarrow> ('k, 'pool) system \<Rightarrow> ('k, 'pool) system" where
  "do_FreeSecureMemory P a sz p s =
     s\<lparr>m_kernel := FreeSecureMemory P (m_kernel s) a sz p,
       calls := calls s @ [Call_FreeSecureMemory a sz p]\<rparr>"

subsection \<open>The member functions\<close>

text \<open>
  \<^verbatim>\<open>KSecureSystemResource::CalculateRequiredSecureMemorySize(size, pool)\<close>, lines 95 to 98.
\<close>

definition CalculateRequiredSecureMemorySize ::
  "('k, 'pool) platform \<Rightarrow> size_t \<Rightarrow> 'pool \<Rightarrow> size_t" where
  "CalculateRequiredSecureMemorySize P sz pool =
     SystemControl_CalculateRequiredSecureMemorySize P sz (pool_u32 P pool)"

text \<open>
  Modelled from the spec: the overload without arguments that \<^verbatim>\<open>Initialize\<close> and
  \<^verbatim>\<open>Finalize\<close> call is declared in \<^verbatim>\<open>k_system_resource.h\<close>, missing from the translated
  files; the specification says both compute \<^verbatim>\<open>CalculateRequiredSecureMemorySize(size, pool)\<close>
  from the size and pool stored on the object.
\<close>

definition this_CalculateRequiredSecureMemorySize ::
  "('k, 'pool) platform \<Rightarrow> 'pool KSecureSystemResource \<Rightarrow> size_t" where
  "this_CalculateRequiredSecureMemorySize P obj =
     CalculateRequiredSecureMemorySize P (m_resource_size obj) (m_resource_pool obj)"

text \<open>
  \<^verbatim>\<open>KSecureSystemResource::Initialize\<close>, lines 10 to 75. The scoped reservation and the
  \<^verbatim>\<open>ON_RESULT_FAILURE\<close> guard are written out at each exit: on a failure exit the guard
  (declared last) frees the secure memory first, then the uncommitted reservation releases
  its amount; on the success exit the reservation is committed and neither runs. Lines 42
  to 45 (the typed view of the reference counts) and 50 to 63 (the binding of the heaps
  and managers) change none of the members of the model.
\<close>

definition Initialize ::
  "('k, 'pool) platform \<Rightarrow> size_t \<Rightarrow> limit_ref \<Rightarrow> 'pool \<Rightarrow> ('k, 'pool) system
     \<Rightarrow> (Result \<times> ('k, 'pool) system) exec" where
  "Initialize P sz resource_limit pool s0 =
     (let s1 = s0\<lparr>this := (this s0)\<lparr>m_resource_limit := resource_limit,
                                    m_resource_size := sz,
                                    m_resource_pool := pool\<rparr>\<rparr>;
          secure_size = uint (this_CalculateRequiredSecureMemorySize P (this s1));
          h = m_resource_limit (this s1)
      in case do_Reserve h PhysicalMemoryMax secure_size s1 of
           (False, s2) \<Rightarrow> Returned (ResultLimitReached, s2)
         | (True, s2) \<Rightarrow>
             (case do_AllocateSecureMemory P (m_resource_size (this s2))
                     (pool_u32 P (m_resource_pool (this s2))) s2 of
                (r, s3) \<Rightarrow>
                  if r \<noteq> ResultSuccess
                  then Returned (r, do_Release h PhysicalMemoryMax secure_size s3)
                  else if \<not> (m_resource_address (this s3) \<noteq> 0) then AssertionFailed
                  else
                    let rc_size = AlignUp (CalculateReferenceCountSize P (m_resource_size (this s3)))
                                          (PageSize P)
                    in if \<not> (m_resource_size (this s3) > rc_size)
                       then Returned (ResultOutOfMemory,
                              do_Release h PhysicalMemoryMax secure_size
                                (do_FreeSecureMemory P (m_resource_address (this s3))
                                   (m_resource_size (this s3))
                                   (pool_u32 P (m_resource_pool (this s3))) s3))
                       else
                         let s4 = s3\<lparr>this := (this s3)\<lparr>m_dynamic_page_manager :=
                                     \<lparr>dpm_address = m_resource_address (this s3) + rc_size,
                                      dpm_size = m_resource_size (this s3) - rc_size,
                                      dpm_align = PageSize P\<rparr>\<rparr>\<rparr>;
                             s5 = do_Open (m_resource_limit (this s4)) s4;
                             s6 = s5\<lparr>this := (this s5)\<lparr>m_is_initialized := True\<rparr>\<rparr>
                         in Returned (ResultSuccess, s6)))"

text \<open>\<^verbatim>\<open>KSecureSystemResource::Finalize\<close>, lines 77 to 93.\<close>

definition Finalize :: "('k, 'pool) platform \<Rightarrow> ('k, 'pool) system \<Rightarrow> ('k, 'pool) system exec" where
  "Finalize P s0 =
     (if \<not> (GetUsed (m_memory_block_slab_manager (this s0)) = 0) then AssertionFailed
      else if \<not> (GetUsed (m_block_info_manager (this s0)) = 0) then AssertionFailed
      else if \<not> (GetUsed (m_page_table_manager (this s0)) = 0) then AssertionFailed
      else
        let s1 = do_FreeSecureMemory P (m_resource_address (this s0)) (m_resource_size (this s0))
                   (pool_u32 P (m_resource_pool (this s0))) s0;
            s2 = do_Release (m_resource_limit (this s1)) PhysicalMemoryMax
                   (uint (this_CalculateRequiredSecureMemorySize P (this s1))) s1;
            s3 = do_Close (m_resource_limit (this s2)) s2
        in Returned s3)"

subsection \<open>Notions used in the statements\<close>

text \<open>The page-aligned size of the reference-count table, computed from the raw size (lines 37 and 38).\<close>

definition table_size :: "('k, 'pool) platform \<Rightarrow> size_t \<Rightarrow> size_t" where
  "table_size P sz = AlignUp (CalculateReferenceCountSize P sz) (PageSize P)"

text \<open>
  The Resource Limit has headroom for the secure size of \<open>(sz, pool)\<close>: the scoped
  reservation of line 21 succeeds.
\<close>

definition reservation_fits ::
  "('k, 'pool) platform \<Rightarrow> size_t \<Rightarrow> limit_ref \<Rightarrow> 'pool \<Rightarrow> ('k, 'pool) system \<Rightarrow> bool" where
  "reservation_fits P sz h pool s =
     (committed s h + uint (CalculateRequiredSecureMemorySize P sz pool)
        \<le> limit_values (limits s h) PhysicalMemoryMax)"

text \<open>
  What the platform memory controller answers to the request of line 26, made in the
  state \<open>s\<close> in which \<^verbatim>\<open>Initialize\<close> is entered.
\<close>

definition platform_allocation ::
  "('k, 'pool) platform \<Rightarrow> size_t \<Rightarrow> 'pool \<Rightarrow> ('k, 'pool) system \<Rightarrow> Result \<times> KVirtualAddress \<times> 'k" where
  "platform_allocation P sz pool s =
     AllocateSecureMemory P (m_kernel s) (m_resource_address (this s)) sz (pool_u32 P pool)"

text \<open>Each of the three slab managers reports zero outstanding allocations.\<close>

definition no_outstanding :: "'pool KSecureSystemResource \<Rightarrow> bool" where
  "no_outstanding obj =
     (GetUsed (m_memory_block_slab_manager obj) = 0 \<and> GetUsed (m_block_info_manager obj) = 0
      \<and> GetUsed (m_page_table_manager obj) = 0)"

text \<open>The result code a run returned, if it returned.\<close>

fun result_of :: "(Result \<times> 's) exec \<Rightarrow> Result option" where
  "result_of AssertionFailed = None"
| "result_of (Returned (r, s)) = Some r"

subsection \<open>A concrete platform and a concrete system\<close>

text \<open>
  A platform with pages of 4096 bytes, two bytes of reference count per page, no inflation
  of the secure size, and a memory controller that answers every request with the result
  \<open>r\<close> and the address \<open>a\<close>; its state counts the live secure regions.
\<close>

definition example_platform :: "Result \<Rightarrow> KVirtualAddress \<Rightarrow> (nat, u32) platform" where
  "example_platform r a =
     \<lparr>PageSize = 0x1000,
      CalculateReferenceCountSize = (\<lambda>sz. 2 * (sz div 0x1000)),
      SystemControl_CalculateRequiredSecureMemorySize = (\<lambda>sz p. sz),
      AllocateSecureMemory = (\<lambda>k out sz p. (r, a, Suc k)),
      FreeSecureMemory = (\<lambda>k a sz p. k - 1),
      pool_u32 = (\<lambda>p. p)\<rparr>"

definition example_limit :: "int \<Rightarrow> KResourceLimit" where
  "example_limit mx = \<lparr>current_values = (\<lambda>_. 0), limit_values = (\<lambda>_. mx), ref_count = 1\<rparr>"

definition example_object :: "u32 KSecureSystemResource" where
  "example_object =
     \<lparr>m_is_initialized = False, m_resource_limit = 0, m_resource_address = 0,
      m_resource_size = 0, m_resource_pool = 0,
      m_dynamic_page_manager = \<lparr>dpm_address = 0, dpm_size = 0, dpm_align = 0\<rparr>,
      m_memory_block_slab_manager = \<lparr>GetUsed = 0\<rparr>,
      m_block_info_manager = \<lparr>GetUsed = 0\<rparr>,
      m_page_table_manager = \<lparr>GetUsed = 0\<rparr>\<rparr>"

text \<open>A system whose Resource Limits allow \<open>mx\<close> units of every kind, none committed.\<close>

definition example_system :: "int \<Rightarrow> (nat, u32) system" where
  "example_system mx =
     \<lparr>m_kernel = 0, limits = (\<lambda>_. example_limit mx), this = example_object, calls = []\<rparr>"

text \<open>
  The system \<open>example_system 0x100000\<close> after \<^verbatim>\<open>Initialize\<close> of a region of 64 KiB at
  address \<open>0x80000000\<close> from pool 0 against Resource Limit 0.
\<close>

definition example_initialized :: "(nat, u32) system" where
  "example_initialized =
     \<lparr>m_kernel = 1,
      limits = (\<lambda>_. example_limit 0x100000)
        (0 := \<lparr>current_values = (\<lambda>_. 0)(PhysicalMemoryMax := 0x10000),
               limit_values = (\<lambda>_. 0x100000), ref_count = 2\<rparr>),
      this = \<lparr>m_is_initialized = True, m_resource_limit = 0, m_resource_address = 0x80000000,
              m_resource_size = 0x10000, m_resource_pool = 0,
              m_dynamic_page_manager =
                \<lparr>dpm_address = 0x80001000, dpm_size = 0xF000, dpm_align = 0x1000\<rparr>,
              m_memory_block_slab_manager = \<lparr>GetUsed = 0\<rparr>,
              m_block_info_manager = \<lparr>GetUsed = 0\<rparr>,
              m_page_table_manager = \<lparr>GetUsed = 0\<rparr>\<rparr>,
      calls = [Call_Reserve 0 PhysicalMemoryMax 0x10000 True,
               Call_AllocateSecureMemory 0x10000 0 ResultSuccess 0x80000000,
               Call_Open 0]\<rparr>"

text \<open>
  The system \<open>example_system 0x100000\<close> after the failed \<^verbatim>\<open>Initialize\<close> of a region of
  one page, which its reference-count table would fill.
\<close>

definition example_rolled_back :: "(nat, u32) system" where
  "example_rolled_back =
     \<lparr>m_kernel = 0,
      limits = (\<lambda>_. example_limit 0x100000),
      this = example_object\<lparr>m_resource_address := 0x80000000, m_resource_size := 0x1000\<rparr>,
      calls = [Call_Reserve 0 PhysicalMemoryMax 0x1000 True,
               Call_AllocateSecureMemory 0x1000 0 ResultSuccess 0x80000000,
               Call_FreeSecureMemory 0x80000000 0x1000 0,
               Call_Release 0 PhysicalMemoryMax 0x1000]\<rparr>"

text \<open>
  The system \<open>example_system 0x100\<close> after the \<^verbatim>\<open>Initialize\<close> of a region of one page
  that its Resource Limit refuses.
\<close>

definition example_refused :: "(nat, u32) system" where
  "example_refused =
     \<lparr>m_kernel = 0,
      limits = (\<lambda>_. example_limit 0x100),
      this = example_object\<lparr>m_resource_size := 0x1000\<rparr>,
      calls = [Call_Reserve 0 PhysicalMemoryMax 0x1000 False]\<rparr>"

section \<open>The profile-selection applet\<close>

text \<open>
  \<^verbatim>\<open>UiReturnArg\<close>, the argument the applet returns: a result code and the selected user.
  The header that declares it is not among the translated files: the result field is taken
  to be 64 bits wide, so that the 32-bit raw value of a result code is stored unchanged,
  and the type of a UUID is a parameter.
\<close>

record 'uuid UiReturnArg =
  result :: u64
  uuid_selected :: "'uuid"

text \<open>Calls made on the broker, in the order in which they happen.\<close>

datatype broker_call = PushNormalDataFromApplet "u8 list" | SignalStateChanged

text \<open>The members of \<^verbatim>\<open>ProfileSelect\<close> that \<^verbatim>\<open>SelectionComplete\<close> reads or writes.\<close>

record ProfileSelect =
  complete :: bool
  status :: Result
  final_data :: "u8 list"
  broker :: "broker_call list"

text \<open>
  What \<^verbatim>\<open>applet_profile_select.cpp\<close> uses but does not define is a parameter:
  \<^verbatim>\<open>Common::UUID::IsValid\<close>, \<^verbatim>\<open>Common::InvalidUUID\<close>, the \<^verbatim>\<open>raw\<close> value of a result
  code, \<^verbatim>\<open>sizeof(UiReturnArg)\<close>, and the object representation of a \<^verbatim>\<open>UiReturnArg\<close>,
  given as the byte at each offset.
\<close>

record 'uuid applet_platform =
  IsValid :: "'uuid \<Rightarrow> bool"
  InvalidUUID :: "'uuid"
  raw :: "Result \<Rightarrow> u32"
  sizeof_UiReturnArg :: nat
  object_byte :: "'uuid UiReturnArg \<Rightarrow> nat \<Rightarrow> u8"

text \<open>\<^verbatim>\<open>std::memcpy(dst.data(), src, n)\<close> into a vector, the source given by its bytes.\<close>

definition memcpy :: "u8 list \<Rightarrow> (nat \<Rightarrow> u8) \<Rightarrow> nat \<Rightarrow> u8 list" where
  "memcpy dst src n = map src [0..<n] @ drop n dst"

text \<open>
  \<^verbatim>\<open>ProfileSelect::SelectionComplete\<close>, lines 100 to 116. Both branches assign both fields
  of the zero-initialised \<^verbatim>\<open>output\<close>. Moving \<^verbatim>\<open>final_data\<close> into the storage that is pushed
  leaves the member empty.
\<close>

definition SelectionComplete ::
  "'uuid applet_platform \<Rightarrow> 'uuid option \<Rightarrow> ProfileSelect \<Rightarrow> ProfileSelect" where
  "SelectionComplete E uuid a0 =
     (let cancelled =
            (a0\<lparr>status := ResultCancelledByUser\<rparr>,
             \<lparr>result = ucast (raw E ResultCancelledByUser), uuid_selected = InvalidUUID E\<rparr>);
          (a1, output) =
            (case uuid of
               Some u \<Rightarrow> if IsValid E u then (a0, \<lparr>result = 0, uuid_selected = u\<rparr>) else cancelled
             | None \<Rightarrow> cancelled);
          a2 = a1\<lparr>final_data := replicate (sizeof_UiReturnArg E) 0\<rparr>;
          a3 = a2\<lparr>final_data := memcpy (final_data a2) (object_byte E output)
                                     (length (final_data a2))\<rparr>;
          a4 = a3\<lparr>broker := broker a3 @ [PushNormalDataFromApplet (final_data a3)],
                  final_data := []\<rparr>;
          a5 = a4\<lparr>broker := broker a4 @ [SignalStateChanged]\<rparr>
      in a5)"

text \<open>The \<^verbatim>\<open>sizeof(UiReturnArg)\<close> bytes of the object representation of a return argument.\<close>

definition return_arg_bytes :: "'uuid applet_platform \<Rightarrow> 'uuid UiReturnArg \<Rightarrow> u8 list" where
  "return_arg_bytes E output = map (object_byte E output) [0..<sizeof_UiReturnArg E]"

text \<open>
  A concrete applet platform: a UUID is a 128-bit value, invalid when zero; a return
  argument is laid out as the eight bytes of the result followed by the sixteen bytes of
  the UUID, least significant byte first.
\<close>

definition example_applet_platform :: "128 word applet_platform" where
  "example_applet_platform =
     \<lparr>IsValid = (\<lambda>u. u \<noteq> 0),
      InvalidUUID = 0,
      raw = (\<lambda>r. case r of ResultSuccess \<Rightarrow> 0 | ResultCancelledByUser \<Rightarrow> 636 | _ \<Rightarrow> 1),
      sizeof_UiReturnArg = 24,
      object_byte = (\<lambda>arg i. if i < 8 then ucast (drop_bit (8 * i) (result arg))
                               else ucast (drop_bit (8 * (i - 8)) (uuid_selected arg)))\<rparr>"

definition example_applet :: ProfileSelect where
  "example_applet = \<lparr>complete = False, status = ResultSuccess, final_data = [], broker = []\<rparr>"

section \<open>The paths through Initialize\<close>

lemmas init_defs = Initialize_def do_Reserve_def do_Release_def do_Open_def do_Close_def
  do_AllocateSecureMemory_def do_FreeSecureMemory_def Reserve_def Release_def Open_def Close_def
  this_CalculateRequiredSecureMemorySize_def committed_def
  table_size_def reservation_fits_def platform_allocation_def Let_def

lemmas example_defs = example_platform_def example_system_def example_limit_def
  example_object_def CalculateRequiredSecureMemorySize_def AlignUp_def

lemma Initialize_limit_reached:
  assumes "\<not> reservation_fits P sz h pool s"
  shows "Initialize P sz h pool s = Returned (ResultLimitReached,
           s\<lparr>this := (this s)\<lparr>m_resource_limit := h, m_resource_size := sz, m_resource_pool := pool\<rparr>,
             calls := calls s @ [Call_Reserve h PhysicalMemoryMax
                        (uint (CalculateRequiredSecureMemorySize P sz pool)) False]\<rparr>)"
  using assms by (simp add: init_defs)

lemma Initialize_allocation_failed:
  assumes "reservation_fits P sz h pool s"
      and "platform_allocation P sz pool s = (r, a, k)"
      and "r \<noteq> ResultSuccess"
  shows "Initialize P sz h pool s = Returned (r,
           s\<lparr>m_kernel := k,
             this := (this s)\<lparr>m_resource_limit := h, m_resource_address := a,
                       m_resource_size := sz, m_resource_pool := pool\<rparr>,
             calls := calls s @
               [Call_Reserve h PhysicalMemoryMax (uint (CalculateRequiredSecureMemorySize P sz pool)) True,
                Call_AllocateSecureMemory sz (pool_u32 P pool) r a,
                Call_Release h PhysicalMemoryMax (uint (CalculateRequiredSecureMemorySize P sz pool))]\<rparr>)"
  using assms by (simp add: init_defs)

lemma Initialize_zero_address:
  assumes "reservation_fits P sz h pool s"
      and "platform_allocation P sz pool s = (ResultSuccess, 0, k)"
  shows "Initialize P sz h pool s = AssertionFailed"
  using assms by (simp add: init_defs)

lemma Initialize_table_too_big:
  assumes "reservation_fits P sz h pool s"
      and "platform_allocation P sz pool s = (ResultSuccess, a, k)"
      and "a \<noteq> 0"
      and "sz \<le> table_size P sz"
  shows "Initialize P sz h pool s = Returned (ResultOutOfMemory,
           s\<lparr>m_kernel := FreeSecureMemory P k a sz (pool_u32 P pool),
             this := (this s)\<lparr>m_resource_limit := h, m_resource_address := a,
                       m_resource_size := sz, m_resource_pool := pool\<rparr>,
             calls := calls s @
               [Call_Reserve h PhysicalMemoryMax (uint (CalculateRequiredSecureMemorySize P sz pool)) True,
                Call_AllocateSecureMemory sz (pool_u32 P pool) ResultSuccess a,
                Call_FreeSecureMemory a sz (pool_u32 P pool),
                Call_Release h PhysicalMemoryMax (uint (CalculateRequiredSecureMemorySize P sz pool))]\<rparr>)"
  using assms by (simp add: init_defs not_less)

lemma Initialize_success:
  assumes "reservation_fits P sz h pool s"
      and "platform_allocation P sz pool s = (ResultSuccess, a, k)"
      and "a \<noteq> 0"
      and "table_size P sz < sz"
  shows "Initialize P sz h pool s = Returned (ResultSuccess,
           s\<lparr>m_kernel := k,
             limits := (limits s)(h := (limits s h)
               \<lparr>current_values := (current_values (limits s h))
                  (PhysicalMemoryMax :=
                     committed s h + uint (CalculateRequiredSecureMemorySize P sz pool)),
                ref_count := ref_count (limits s h) + 1\<rparr>),
             this := (this s)\<lparr>m_is_initialized := True, m_resource_limit := h, m_resource_address := a,
                       m_resource_size := sz, m_resource_pool := pool,
                       m_dynamic_page_manager :=
                         \<lparr>dpm_address = a + table_size P sz, dpm_size = sz - table_size P sz,
                          dpm_align = PageSize P\<rparr>\<rparr>,
             calls := calls s @
               [Call_Reserve h PhysicalMemoryMax (uint (CalculateRequiredSecureMemorySize P sz pool)) True,
                Call_AllocateSecureMemory sz (pool_u32 P pool) ResultSuccess a,
                Call_Open h]\<rparr>)"
  using assms by (simp add: init_defs)

text \<open>Every run of \<^verbatim>\<open>Initialize\<close> takes one of the five paths above.\<close>

lemma Initialize_paths:
  "\<not> reservation_fits P sz h pool s
   \<or> (\<exists>r a k. reservation_fits P sz h pool s \<and> platform_allocation P sz pool s = (r, a, k)
        \<and> r \<noteq> ResultSuccess)
   \<or> (\<exists>k. reservation_fits P sz h pool s \<and> platform_allocation P sz pool s = (ResultSuccess, 0, k))
   \<or> (\<exists>a k. reservation_fits P sz h pool s \<and> platform_allocation P sz pool s = (ResultSuccess, a, k)
        \<and> a \<noteq> 0 \<and> sz \<le> table_size P sz)
   \<or> (\<exists>a k. reservation_fits P sz h pool s \<and> platform_allocation P sz pool s = (ResultSuccess, a, k)
        \<and> a \<noteq> 0 \<and> table_size P sz < sz)"
proof -
  obtain r a k where "platform_allocation P sz pool s = (r, a, k)"
    by (cases "platform_allocation P sz pool s") auto
  then show ?thesis
    by (cases "r = ResultSuccess"; cases "a = 0"; cases "table_size P sz < sz")
       (auto simp: not_less)
qed

lemma Initialize_SuccessD:
  assumes "Initialize P sz h pool s = Returned (ResultSuccess, s1)"
  shows "\<exists>a k. reservation_fits P sz h pool s
           \<and> platform_allocation P sz pool s = (ResultSuccess, a, k)
           \<and> a \<noteq> 0 \<and> table_size P sz < sz"
  using Initialize_paths [of P sz h pool s] assms
  by (elim disjE exE conjE)
     (simp_all add: Initialize_limit_reached Initialize_allocation_failed
        Initialize_zero_address Initialize_table_too_big)

lemma Initialize_failureD:
  assumes "Initialize P sz h pool s = Returned (r, s')"
      and "r \<noteq> ResultSuccess"
  shows "limits s' = limits s
       \<and> m_is_initialized (this s') = m_is_initialized (this s)
       \<and> m_resource_limit (this s') = h \<and> m_resource_size (this s') = sz
       \<and> m_resource_pool (this s') = pool"
  using Initialize_paths [of P sz h pool s] assms
  by (elim disjE exE conjE)
     (auto simp add: Initialize_limit_reached Initialize_allocation_failed
        Initialize_zero_address Initialize_table_too_big Initialize_success)

subsection \<open>Aligning upward\<close>

text \<open>
  \<open>AlignUp v a\<close> is the least multiple of \<open>a\<close> that is not below \<open>v\<close>, as long as that
  multiple fits into a \<^verbatim>\<open>size_t\<close>.
\<close>

lemma nat_align_up:
  fixes n k :: nat
  assumes "0 < k" and "n mod k \<noteq> 0"
  shows "n - n mod k + k < n + k" and "k dvd n - n mod k + k" and "n \<le> n - n mod k + k"
proof -
  define x where "x = n mod k"
  have x: "0 < x" "x \<le> n" "x < k"
    using assms by (simp_all add: x_def)
  from x show "n - n mod k + k < n + k" unfolding x_def [symmetric] by arith
  from x show "n \<le> n - n mod k + k" unfolding x_def [symmetric] by arith
  have "k dvd n - n mod k" by (rule dvd_minus_mod)
  then show "k dvd n - n mod k + k" by (rule dvd_add) (rule dvd_refl)
qed

lemma AlignUp_unat:
  assumes "a \<noteq> 0" and "unat v + unat a \<le> 2 ^ 64"
  shows "unat (AlignUp v a) = (if unat v mod unat a = 0 then unat v
                               else unat v - unat v mod unat a + unat a)"
proof (cases "v mod a = 0")
  case True
  then have "unat (v mod a) = 0" by simp
  then have "unat v mod unat a = 0" by (simp add: unat_mod)
  with True show ?thesis by (simp add: AlignUp_def)
next
  case False
  then have "unat (v mod a) \<noteq> 0" by (simp add: unat_eq_zero)
  then have m: "unat v mod unat a \<noteq> 0" by (simp add: unat_mod)
  have pos: "0 < unat a" using assms(1) by (simp add: unat_gt_0)
  have "unat (v mod a) \<le> unat v" by (simp add: unat_mod)
  then have le: "v mod a \<le> v" by (simp only: word_le_nat_alt)
  have s: "unat (v - v mod a) = unat v - unat v mod unat a"
    using le by (simp add: unat_sub unat_mod)
  from nat_align_up(1) [OF pos m] assms(2)
  have "unat v - unat v mod unat a + unat a < 2 ^ 64" by (rule less_le_trans)
  then have "unat (v - v mod a) + unat a < 2 ^ LENGTH(64)"
    using s by simp
  then have "unat (v - v mod a + a) = unat (v - v mod a) + unat a"
    by (simp only: unat_add_lem)
  with s False m show ?thesis by (simp add: AlignUp_def Let_def)
qed

lemma AlignUp_aligns_upward:
  assumes "a \<noteq> 0" and "unat v + unat a \<le> 2 ^ 64"
  shows "unat a dvd unat (AlignUp v a)
       \<and> unat v \<le> unat (AlignUp v a)
       \<and> unat (AlignUp v a) < unat v + unat a"
proof (cases "unat v mod unat a = 0")
  case True
  have pos: "0 < unat a" using assms(1) by (simp add: unat_gt_0)
  from True have "unat a dvd unat v" by (simp add: mod_eq_0_iff_dvd)
  with True pos show ?thesis by (simp add: AlignUp_unat [OF assms])
next
  case False
  have pos: "0 < unat a" using assms(1) by (simp add: unat_gt_0)
  from nat_align_up [OF pos False] False show ?thesis
    by (simp add: AlignUp_unat [OF assms])
qed

subsection \<open>Results of a run\<close>

lemma result_of_Some: "result_of x = Some r \<Longrightarrow> \<exists>s. x = Returned (r, s)"
  by (cases x rule: result_of.cases) auto

subsection \<open>Facts about the concrete platform\<close>

lemma example_table_size_big: "table_size (example_platform r a) 0x10000 = 0x1000"
  by (simp add: table_size_def example_defs)

lemma example_table_size_small: "table_size (example_platform r a) 0x1000 = 0x1000"
  by (simp add: table_size_def example_defs)

lemma example_fits:
  "reservation_fits (example_platform r a) 0x10000 0 0 (example_system 0x100000)"
  by (simp add: reservation_fits_def committed_def example_defs)

lemma example_fits_small:
  "reservation_fits (example_platform r a) 0x1000 0 0 (example_system 0x100000)"
  by (simp add: reservation_fits_def committed_def example_defs)

lemma example_not_fits:
  "\<not> reservation_fits (example_platform r a) 0x1000 0 0 (example_system 0x100)"
  by (simp add: reservation_fits_def committed_def example_defs)

lemma example_allocation:
  "platform_allocation (example_platform r a) sz 0 (example_system m) = (r, a, 1)"
  by (simp add: platform_allocation_def example_defs)

lemma example_no_outstanding: "no_outstanding (this (example_system m))"
  by (simp add: no_outstanding_def example_defs)

lemma example_committed: "committed (example_system m) h = 0"
  by (simp add: committed_def example_defs)

lemma example_secure_size:
  "CalculateRequiredSecureMemorySize (example_platform r a) sz pool = sz"
  by (simp add: example_defs)

lemma example_platform_simps:
  "PageSize (example_platform r a) = 0x1000"
  "pool_u32 (example_platform r a) p = p"
  "FreeSecureMemory (example_platform r a) k b sz p = k - 1"
  by (simp_all add: example_platform_def)

lemmas example_state_defs = example_system_def example_limit_def example_object_def
  example_table_size_big example_table_size_small example_secure_size committed_def
  example_platform_simps

lemma example_nonzero: "(0x80000000 :: KVirtualAddress) \<noteq> 0"
  by simp

lemma example_Initialize_success:
  "Initialize (example_platform ResultSuccess 0x80000000) 0x10000 0 0 (example_system 0x100000)
     = Returned (ResultSuccess, example_initialized)"
proof -
  have tb: "table_size (example_platform ResultSuccess 0x80000000) 0x10000 < 0x10000"
    by (simp add: example_table_size_big)
  show ?thesis
    unfolding Initialize_success [OF example_fits example_allocation example_nonzero tb]
    by (simp add: example_state_defs example_initialized_def)
qed

lemma example_Initialize_rolled_back:
  "Initialize (example_platform ResultSuccess 0x80000000) 0x1000 0 0 (example_system 0x100000)
     = Returned (ResultOutOfMemory, example_rolled_back)"
proof -
  have tb: "0x1000 \<le> table_size (example_platform ResultSuccess 0x80000000) 0x1000"
    by (simp add: example_table_size_small)
  show ?thesis
    unfolding Initialize_table_too_big [OF example_fits_small example_allocation example_nonzero tb]
    by (simp add: example_state_defs example_rolled_back_def)
qed

lemma example_Initialize_refused:
  "Initialize (example_platform ResultSuccess 0x80000000) 0x1000 0 0 (example_system 0x100)
     = Returned (ResultLimitReached, example_refused)"
  unfolding Initialize_limit_reached [OF example_not_fits]
  by (simp add: example_state_defs example_refused_def)

lemma example_initialized_simps:
  "m_kernel example_initialized = 1"
  "calls example_initialized =
     [Call_Reserve 0 PhysicalMemoryMax 0x10000 True,
      Call_AllocateSecureMemory 0x10000 0 ResultSuccess 0x80000000,
      Call_Open 0]"
  "m_is_initialized (this example_initialized) = True"
  "m_resource_limit (this example_initialized) = 0"
  "m_resource_address (this example_initialized) = 0x80000000"
  "m_resource_size (this example_initialized) = 0x10000"
  "m_resource_pool (this example_initialized) = 0"
  "m_dynamic_page_manager (this example_initialized)
     = \<lparr>dpm_address = 0x80001000, dpm_size = 0xF000, dpm_align = 0x1000\<rparr>"
  "no_outstanding (this example_initialized)"
  by (simp_all add: example_initialized_def no_outstanding_def)

lemma example_applet_platform_simps:
  "IsValid example_applet_platform u = (u \<noteq> 0)"
  "InvalidUUID example_applet_platform = 0"
  "raw example_applet_platform ResultCancelledByUser = 636"
  "sizeof_UiReturnArg example_applet_platform = 24"
  by (simp_all add: example_applet_platform_def)

section \<open>Initialize followed by Finalize\<close>

text \<open>
  Claim C1. For every \<open>(sz, pool)\<close> whose size is strictly greater than its page-aligned
  reference-count table size, and a Resource Limit with enough headroom, \<^verbatim>\<open>Initialize\<close>
  succeeds when the platform allocation succeeds, and commits exactly
  \<open>CalculateRequiredSecureMemorySize sz pool\<close> units of physical memory; \<^verbatim>\<open>Finalize\<close>
  called immediately afterwards returns and releases exactly the same amount, so the
  committed amount is again what it was before \<^verbatim>\<open>Initialize\<close>. Nothing is allocated from
  the three slab managers: they report no outstanding allocation when \<^verbatim>\<open>Initialize\<close> is
  entered, and \<^verbatim>\<open>Initialize\<close> leaves their counts as they are.
\<close>

theorem Initialize_then_Finalize_restores_committed:
  assumes "table_size P sz < sz"
      and "reservation_fits P sz h pool s"
      and "platform_allocation P sz pool s = (ResultSuccess, a, k)"
      and "a \<noteq> 0"
      and "no_outstanding (this s)"
  shows "\<exists>s1 s2. Initialize P sz h pool s = Returned (ResultSuccess, s1)
           \<and> committed s1 h = committed s h + uint (CalculateRequiredSecureMemorySize P sz pool)
           \<and> Finalize P s1 = Returned s2
           \<and> committed s2 h = committed s1 h - uint (CalculateRequiredSecureMemorySize P sz pool)
           \<and> committed s2 h = committed s h"
  using assms
  by (simp add: Initialize_success Finalize_def no_outstanding_def init_defs)

text \<open>
  Witness for C1: a region of 64 KiB, whose table takes one page, against a limit of 1 MiB.
\<close>

theorem Initialize_then_Finalize_restores_committed_witness:
  "table_size (example_platform ResultSuccess 0x80000000) 0x10000 < 0x10000
   \<and> reservation_fits (example_platform ResultSuccess 0x80000000) 0x10000 0 0 (example_system 0x100000)
   \<and> platform_allocation (example_platform ResultSuccess 0x80000000) 0x10000 0 (example_system 0x100000)
       = (ResultSuccess, 0x80000000, 1)
   \<and> (0x80000000 :: KVirtualAddress) \<noteq> 0
   \<and> no_outstanding (this (example_system 0x100000))
   \<and> (\<exists>s1 s2. Initialize (example_platform ResultSuccess 0x80000000) 0x10000 0 0 (example_system 0x100000)
                  = Returned (ResultSuccess, s1)
          \<and> committed s1 0 = 0x10000
          \<and> Finalize (example_platform ResultSuccess 0x80000000) s1 = Returned s2
          \<and> committed s2 0 = 0)"
proof -
  let ?P = "example_platform ResultSuccess 0x80000000"
  let ?s = "example_system 0x100000"
  have h1: "table_size ?P 0x10000 < 0x10000"
    by (simp add: example_table_size_big)
  have h2: "reservation_fits ?P 0x10000 0 0 ?s"
    by (rule example_fits)
  have h3: "platform_allocation ?P 0x10000 0 ?s = (ResultSuccess, 0x80000000, 1)"
    by (rule example_allocation)
  have h4: "(0x80000000 :: KVirtualAddress) \<noteq> 0"
    by simp
  have h5: "no_outstanding (this ?s)"
    by (rule example_no_outstanding)
  have c: "committed ?s 0 = 0" "uint (CalculateRequiredSecureMemorySize ?P 0x10000 0) = 0x10000"
    by (simp_all add: example_committed example_secure_size)
  from Initialize_then_Finalize_restores_committed [OF h1 h2 h3 h4 h5]
  show ?thesis using h1 h2 h3 h4 h5 c by auto
qed

section \<open>The failure exits of Initialize\<close>

text \<open>
  Claim C2 as stated, that for every size whose page-aligned table size is at least the
  size \<^verbatim>\<open>Initialize\<close> fails with \<^verbatim>\<open>ResultOutOfMemory\<close>, does not hold: the reservation
  is attempted first, and with a region of one page against a limit of 256 units the call
  fails with \<^verbatim>\<open>ResultLimitReached\<close>.
\<close>

theorem Initialize_table_too_big_counterexample:
  "0x1000 \<le> table_size (example_platform ResultSuccess 0x80000000) 0x1000
   \<and> result_of (Initialize (example_platform ResultSuccess 0x80000000) 0x1000 0 0 (example_system 0x100))
       = Some ResultLimitReached
   \<and> result_of (Initialize (example_platform ResultSuccess 0x80000000) 0x1000 0 0 (example_system 0x100))
       \<noteq> Some ResultOutOfMemory"
  by (simp add: example_table_size_small Initialize_limit_reached [OF example_not_fits])

text \<open>
  Claim C2, amended. For every size whose page-aligned reference-count table size is
  greater than or equal to the size: if the reservation fits under the limit and the
  platform allocation succeeds with a non-zero address, \<^verbatim>\<open>Initialize\<close> fails with
  \<^verbatim>\<open>ResultOutOfMemory\<close>; and whenever \<^verbatim>\<open>Initialize\<close> returns, it has not succeeded and
  every Resource Limit, in particular the committed amount of physical memory, is as it
  was before the call.
\<close>

theorem Initialize_table_too_big_OutOfMemory:
  assumes "sz \<le> table_size P sz"
  shows "(reservation_fits P sz h pool s \<and> fst (platform_allocation P sz pool s) = ResultSuccess
            \<and> fst (snd (platform_allocation P sz pool s)) \<noteq> 0
          \<longrightarrow> result_of (Initialize P sz h pool s) = Some ResultOutOfMemory)
       \<and> (\<forall>r s'. Initialize P sz h pool s = Returned (r, s')
            \<longrightarrow> r \<noteq> ResultSuccess \<and> limits s' = limits s \<and> committed s' h = committed s h)"
proof -
  from Initialize_paths [of P sz h pool s] show ?thesis
  proof (elim disjE exE conjE)
    assume "\<not> reservation_fits P sz h pool s"
    then show ?thesis by (simp add: Initialize_limit_reached committed_def)
  next
    fix r a k
    assume "reservation_fits P sz h pool s" "platform_allocation P sz pool s = (r, a, k)"
      "r \<noteq> ResultSuccess"
    then show ?thesis by (simp add: Initialize_allocation_failed committed_def)
  next
    fix k
    assume "reservation_fits P sz h pool s" "platform_allocation P sz pool s = (ResultSuccess, 0, k)"
    then show ?thesis by (simp add: Initialize_zero_address)
  next
    fix a k
    assume "reservation_fits P sz h pool s" "platform_allocation P sz pool s = (ResultSuccess, a, k)"
      "a \<noteq> 0" "sz \<le> table_size P sz"
    then show ?thesis by (simp add: Initialize_table_too_big committed_def)
  next
    fix a k
    assume "table_size P sz < sz"
    with assms show ?thesis by simp
  qed
qed

text \<open>
  Witness for the amended C2: a region of one page, which its table fills, against a limit
  of 1 MiB.
\<close>

theorem Initialize_table_too_big_OutOfMemory_witness:
  "0x1000 \<le> table_size (example_platform ResultSuccess 0x80000000) 0x1000
   \<and> reservation_fits (example_platform ResultSuccess 0x80000000) 0x1000 0 0 (example_system 0x100000)
   \<and> fst (platform_allocation (example_platform ResultSuccess 0x80000000) 0x1000 0
            (example_system 0x100000)) = ResultSuccess
   \<and> fst (snd (platform_allocation (example_platform ResultSuccess 0x80000000) 0x1000 0
            (example_system 0x100000))) \<noteq> 0
   \<and> (\<exists>s'. Initialize (example_platform ResultSuccess 0x80000000) 0x1000 0 0 (example_system 0x100000)
               = Returned (ResultOutOfMemory, s')
          \<and> limits s' = limits (example_system 0x100000)
          \<and> committed s' 0 = 0)"
proof -
  let ?P = "example_platform ResultSuccess 0x80000000"
  let ?s = "example_system 0x100000"
  have h1: "0x1000 \<le> table_size ?P 0x1000"
    by (simp add: example_table_size_small)
  have h2: "reservation_fits ?P 0x1000 0 0 ?s"
    by (rule example_fits_small)
  have h3: "fst (platform_allocation ?P 0x1000 0 ?s) = ResultSuccess"
    by (simp add: example_allocation)
  have h4: "fst (snd (platform_allocation ?P 0x1000 0 ?s)) \<noteq> 0"
    by (simp add: example_allocation)
  note inst = Initialize_table_too_big_OutOfMemory [OF h1, of 0 0 ?s]
  from inst h2 h3 h4 have "result_of (Initialize ?P 0x1000 0 0 ?s) = Some ResultOutOfMemory"
    by blast
  then obtain s' where r: "Initialize ?P 0x1000 0 0 ?s = Returned (ResultOutOfMemory, s')"
    by (auto dest: result_of_Some)
  with inst have "limits s' = limits ?s \<and> committed s' 0 = committed ?s 0"
    by blast
  with r h1 h2 h3 h4 show ?thesis
    by (auto simp: example_committed)
qed

text \<open>
  Claim C3. Whenever the scoped reservation of the secure size would exceed the configured
  maximum, \<^verbatim>\<open>Initialize\<close> fails with \<^verbatim>\<open>ResultLimitReached\<close> and does nothing further: the
  platform memory controller is not called and keeps its state, no Resource Limit is
  changed or opened, and the object is as before except for the three members assigned
  before the reservation; in particular it is not marked initialized.
\<close>

theorem Initialize_LimitReached_no_further_action:
  assumes "\<not> reservation_fits P sz h pool s"
  shows "\<exists>s'. Initialize P sz h pool s = Returned (ResultLimitReached, s')
           \<and> m_kernel s' = m_kernel s
           \<and> limits s' = limits s
           \<and> calls s' = calls s @ [Call_Reserve h PhysicalMemoryMax
                                     (uint (CalculateRequiredSecureMemorySize P sz pool)) False]
           \<and> this s' = (this s)\<lparr>m_resource_limit := h, m_resource_size := sz,
                                  m_resource_pool := pool\<rparr>
           \<and> m_is_initialized (this s') = m_is_initialized (this s)"
  using assms by (simp add: Initialize_limit_reached)

text \<open>Witness for C3: a region of one page against a limit of 256 units.\<close>

theorem Initialize_LimitReached_no_further_action_witness:
  "\<not> reservation_fits (example_platform ResultSuccess 0x80000000) 0x1000 0 0 (example_system 0x100)
   \<and> (\<exists>s'. Initialize (example_platform ResultSuccess 0x80000000) 0x1000 0 0 (example_system 0x100)
               = Returned (ResultLimitReached, s')
          \<and> m_kernel s' = 0
          \<and> limits s' = limits (example_system 0x100)
          \<and> calls s' = [Call_Reserve 0 PhysicalMemoryMax 0x1000 False]
          \<and> m_is_initialized (this s') = False)"
proof -
  let ?P = "example_platform ResultSuccess 0x80000000"
  let ?s = "example_system 0x100"
  have h: "\<not> reservation_fits ?P 0x1000 0 0 ?s"
    by (rule example_not_fits)
  have c: "m_kernel ?s = 0" "calls ?s = []" "m_is_initialized (this ?s) = False"
    "uint (CalculateRequiredSecureMemorySize ?P 0x1000 0) = 0x1000"
    by (simp_all add: example_defs)
  from Initialize_LimitReached_no_further_action [OF h]
  show ?thesis using h c by auto
qed

text \<open>
  Claim C4. In every run of \<^verbatim>\<open>Initialize\<close> in which the platform allocation succeeded and
  a later step fails, \<^verbatim>\<open>FreeSecureMemory\<close> is called with the address, size and pool of
  the allocation before the error is returned (and then the reservation is released); when
  \<^verbatim>\<open>Initialize\<close> succeeds no \<^verbatim>\<open>FreeSecureMemory\<close> happens in it, and the matching call
  is the first thing \<^verbatim>\<open>Finalize\<close> does.
\<close>

theorem Initialize_rollback_frees_secure_memory:
  assumes "reservation_fits P sz h pool s"
      and "platform_allocation P sz pool s = (ResultSuccess, a, k)"
      and "Initialize P sz h pool s = Returned (r, s')"
  shows "(r \<noteq> ResultSuccess \<longrightarrow>
            calls s' = calls s @
              [Call_Reserve h PhysicalMemoryMax (uint (CalculateRequiredSecureMemorySize P sz pool)) True,
               Call_AllocateSecureMemory sz (pool_u32 P pool) ResultSuccess a,
               Call_FreeSecureMemory a sz (pool_u32 P pool),
               Call_Release h PhysicalMemoryMax (uint (CalculateRequiredSecureMemorySize P sz pool))]
            \<and> m_kernel s' = FreeSecureMemory P k a sz (pool_u32 P pool))
       \<and> (r = ResultSuccess \<longrightarrow>
            calls s' = calls s @
              [Call_Reserve h PhysicalMemoryMax (uint (CalculateRequiredSecureMemorySize P sz pool)) True,
               Call_AllocateSecureMemory sz (pool_u32 P pool) ResultSuccess a,
               Call_Open h]
            \<and> m_kernel s' = k
            \<and> (no_outstanding (this s') \<longrightarrow>
                 (\<exists>t. Finalize P s' = Returned t
                    \<and> calls t = calls s' @
                        [Call_FreeSecureMemory a sz (pool_u32 P pool),
                         Call_Release h PhysicalMemoryMax
                           (uint (CalculateRequiredSecureMemorySize P sz pool)),
                         Call_Close h])))"
proof (cases "a = 0")
  case True
  with assms show ?thesis by (simp add: Initialize_zero_address)
next
  case nz: False
  show ?thesis
  proof (cases "table_size P sz < sz")
    case True
    with assms nz show ?thesis
      by (auto simp add: Initialize_success Finalize_def no_outstanding_def
            do_FreeSecureMemory_def do_Release_def do_Close_def
            this_CalculateRequiredSecureMemorySize_def)
  next
    case False
    then have "sz \<le> table_size P sz" by (simp add: not_less)
    with assms nz show ?thesis by (auto simp add: Initialize_table_too_big)
  qed
qed

text \<open>
  Witness for C4: the region of one page, rolled back after the table-size check, and the
  region of 64 KiB, freed by \<^verbatim>\<open>Finalize\<close> only.
\<close>

theorem Initialize_rollback_frees_secure_memory_witness:
  "reservation_fits (example_platform ResultSuccess 0x80000000) 0x1000 0 0 (example_system 0x100000)
   \<and> platform_allocation (example_platform ResultSuccess 0x80000000) 0x1000 0 (example_system 0x100000)
       = (ResultSuccess, 0x80000000, 1)
   \<and> Initialize (example_platform ResultSuccess 0x80000000) 0x1000 0 0 (example_system 0x100000)
       = Returned (ResultOutOfMemory, example_rolled_back)
   \<and> calls example_rolled_back =
       [Call_Reserve 0 PhysicalMemoryMax 0x1000 True,
        Call_AllocateSecureMemory 0x1000 0 ResultSuccess 0x80000000,
        Call_FreeSecureMemory 0x80000000 0x1000 0,
        Call_Release 0 PhysicalMemoryMax 0x1000]
   \<and> m_kernel example_rolled_back = 0
   \<and> reservation_fits (example_platform ResultSuccess 0x80000000) 0x10000 0 0 (example_system 0x100000)
   \<and> platform_allocation (example_platform ResultSuccess 0x80000000) 0x10000 0 (example_system 0x100000)
       = (ResultSuccess, 0x80000000, 1)
   \<and> Initialize (example_platform ResultSuccess 0x80000000) 0x10000 0 0 (example_system 0x100000)
       = Returned (ResultSuccess, example_initialized)
   \<and> calls example_initialized =
       [Call_Reserve 0 PhysicalMemoryMax 0x10000 True,
        Call_AllocateSecureMemory 0x10000 0 ResultSuccess 0x80000000,
        Call_Open 0]
   \<and> no_outstanding (this example_initialized)
   \<and> (\<exists>t. Finalize (example_platform ResultSuccess 0x80000000) example_initialized = Returned t
          \<and> calls t = calls example_initialized @
              [Call_FreeSecureMemory 0x80000000 0x10000 0,
               Call_Release 0 PhysicalMemoryMax 0x10000,
               Call_Close 0])"
proof -
  let ?P = "example_platform ResultSuccess 0x80000000"
  let ?s = "example_system 0x100000"
  have c: "calls ?s = []"
    by (simp add: example_system_def)
  note failing = Initialize_rollback_frees_secure_memory
    [OF example_fits_small example_allocation example_Initialize_rolled_back]
  note succeeding = Initialize_rollback_frees_secure_memory
    [OF example_fits example_allocation example_Initialize_success]
  from failing succeeding show ?thesis
    using example_fits_small example_fits example_allocation example_Initialize_rolled_back
      example_Initialize_success
    by (simp add: c example_secure_size example_platform_simps example_initialized_simps)
qed

section \<open>Finalize\<close>

text \<open>
  Claim C5. \<^verbatim>\<open>Finalize\<close>, called on an object that \<^verbatim>\<open>Initialize\<close> initialized for
  \<open>(sz, h, pool)\<close> and whose slab managers have since been used (\<open>t\<close> is any later
  state in which only their counts differ on the object), fails its assertion when one of
  the three managers reports an outstanding allocation; otherwise it performs exactly, in
  this order: \<^verbatim>\<open>FreeSecureMemory\<close> with the region's address, the raw size and the pool
  given to \<^verbatim>\<open>Initialize\<close>; the release of \<open>CalculateRequiredSecureMemorySize sz pool\<close>
  units of physical memory to the Resource Limit; the closing of the reference on the
  Resource Limit.
\<close>

theorem Finalize_after_Initialize:
  assumes "Initialize P sz h pool s = Returned (ResultSuccess, s1)"
      and "this t = (this s1)\<lparr>m_memory_block_slab_manager := m1,
                               m_block_info_manager := m2,
                               m_page_table_manager := m3\<rparr>"
  shows "Finalize P t =
           (if GetUsed m1 = 0 \<and> GetUsed m2 = 0 \<and> GetUsed m3 = 0
            then Returned
              (t\<lparr>m_kernel := FreeSecureMemory P (m_kernel t) (m_resource_address (this s1)) sz
                               (pool_u32 P pool),
                 limits := (limits t)(h := Close (Release (limits t h) PhysicalMemoryMax
                             (uint (CalculateRequiredSecureMemorySize P sz pool)))),
                 calls := calls t @
                   [Call_FreeSecureMemory (m_resource_address (this s1)) sz (pool_u32 P pool),
                    Call_Release h PhysicalMemoryMax
                      (uint (CalculateRequiredSecureMemorySize P sz pool)),
                    Call_Close h]\<rparr>)
            else AssertionFailed)"
proof -
  from Initialize_SuccessD [OF assms(1)] obtain a k where
    "reservation_fits P sz h pool s" "platform_allocation P sz pool s = (ResultSuccess, a, k)"
    "a \<noteq> 0" "table_size P sz < sz" by blast
  from Initialize_success [OF this] assms(1) have
    "m_resource_size (this s1) = sz" "m_resource_pool (this s1) = pool"
    "m_resource_limit (this s1) = h"
    by auto
  with assms(2) show ?thesis
    by (simp add: Finalize_def do_FreeSecureMemory_def do_Release_def do_Close_def
          this_CalculateRequiredSecureMemorySize_def)
qed

text \<open>
  Witness for C5: \<^verbatim>\<open>Finalize\<close> right after the \<^verbatim>\<open>Initialize\<close> of the region of 64 KiB,
  and \<^verbatim>\<open>Finalize\<close> with one page table still allocated.
\<close>

theorem Finalize_after_Initialize_witness:
  "Initialize (example_platform ResultSuccess 0x80000000) 0x10000 0 0 (example_system 0x100000)
     = Returned (ResultSuccess, example_initialized)
   \<and> this example_initialized =
       (this example_initialized)\<lparr>m_memory_block_slab_manager := \<lparr>GetUsed = 0\<rparr>,
                                   m_block_info_manager := \<lparr>GetUsed = 0\<rparr>,
                                   m_page_table_manager := \<lparr>GetUsed = 0\<rparr>\<rparr>
   \<and> Finalize (example_platform ResultSuccess 0x80000000) example_initialized =
       Returned
         (example_initialized
            \<lparr>m_kernel := 0,
             limits := (limits example_initialized)
               (0 := Close (Release (limits example_initialized 0) PhysicalMemoryMax 0x10000)),
             calls := calls example_initialized @
               [Call_FreeSecureMemory 0x80000000 0x10000 0,
                Call_Release 0 PhysicalMemoryMax 0x10000,
                Call_Close 0]\<rparr>)
   \<and> Finalize (example_platform ResultSuccess 0x80000000)
       (example_initialized\<lparr>this := (this example_initialized)\<lparr>m_page_table_manager := \<lparr>GetUsed = 1\<rparr>\<rparr>\<rparr>)
       = AssertionFailed"
proof -
  let ?P = "example_platform ResultSuccess 0x80000000"
  let ?t = "example_initialized\<lparr>this := (this example_initialized)\<lparr>m_page_table_manager := \<lparr>GetUsed = 1\<rparr>\<rparr>\<rparr>"
  have h1: "this example_initialized =
       (this example_initialized)\<lparr>m_memory_block_slab_manager := \<lparr>GetUsed = 0\<rparr>,
                                   m_block_info_manager := \<lparr>GetUsed = 0\<rparr>,
                                   m_page_table_manager := \<lparr>GetUsed = 0\<rparr>\<rparr>"
    by (simp add: example_initialized_def)
  have h2: "this ?t =
       (this example_initialized)\<lparr>m_memory_block_slab_manager := \<lparr>GetUsed = 0\<rparr>,
                                   m_block_info_manager := \<lparr>GetUsed = 0\<rparr>,
                                   m_page_table_manager := \<lparr>GetUsed = 1\<rparr>\<rparr>"
    by (simp add: example_initialized_def)
  note clean = Finalize_after_Initialize [OF example_Initialize_success h1]
  note dirty = Finalize_after_Initialize [OF example_Initialize_success h2]
  have "Finalize ?P ?t = AssertionFailed"
    using dirty by simp
  moreover have "Finalize ?P example_initialized =
       Returned
         (example_initialized
            \<lparr>m_kernel := 0,
             limits := (limits example_initialized)
               (0 := Close (Release (limits example_initialized 0) PhysicalMemoryMax 0x10000)),
             calls := calls example_initialized @
               [Call_FreeSecureMemory 0x80000000 0x10000 0,
                Call_Release 0 PhysicalMemoryMax 0x10000,
                Call_Close 0]\<rparr>)"
    using clean
    by (simp add: example_secure_size example_platform_simps example_initialized_simps)
  ultimately show ?thesis
    using example_Initialize_success h1 by simp
qed

text \<open>
  Claim C6. \<^verbatim>\<open>CalculateRequiredSecureMemorySize\<close> is a function of its size and pool
  arguments alone: the call \<^verbatim>\<open>Initialize\<close> makes, on the object as it is after the members
  are set, and the call \<^verbatim>\<open>Finalize\<close> makes later, on the object as \<^verbatim>\<open>Initialize\<close> left it
  (whatever the platform, the Resource Limits and the slab managers have become in
  between), return the same value, that for \<open>(sz, pool)\<close>.
\<close>

theorem CalculateRequiredSecureMemorySize_same_at_Finalize:
  assumes "Initialize P sz h pool s = Returned (ResultSuccess, s1)"
      and "this t = (this s1)\<lparr>m_memory_block_slab_manager := m1,
                               m_block_info_manager := m2,
                               m_page_table_manager := m3\<rparr>"
  shows "this_CalculateRequiredSecureMemorySize P
           ((this s)\<lparr>m_resource_limit := h, m_resource_size := sz, m_resource_pool := pool\<rparr>)
         = this_CalculateRequiredSecureMemorySize P (this t)
       \<and> this_CalculateRequiredSecureMemorySize P (this t)
         = CalculateRequiredSecureMemorySize P sz pool"
proof -
  from Initialize_SuccessD [OF assms(1)] obtain a k where
    "reservation_fits P sz h pool s" "platform_allocation P sz pool s = (ResultSuccess, a, k)"
    "a \<noteq> 0" "table_size P sz < sz" by blast
  from Initialize_success [OF this] assms(1) have
    "m_resource_size (this s1) = sz" "m_resource_pool (this s1) = pool"
    by auto
  with assms(2) show ?thesis
    by (simp add: this_CalculateRequiredSecureMemorySize_def)
qed

text \<open>Witness for C6: the region of 64 KiB, for which both calls return 65536.\<close>

theorem CalculateRequiredSecureMemorySize_same_at_Finalize_witness:
  "Initialize (example_platform ResultSuccess 0x80000000) 0x10000 0 0 (example_system 0x100000)
     = Returned (ResultSuccess, example_initialized)
   \<and> this example_initialized =
       (this example_initialized)\<lparr>m_memory_block_slab_manager := \<lparr>GetUsed = 0\<rparr>,
                                   m_block_info_manager := \<lparr>GetUsed = 0\<rparr>,
                                   m_page_table_manager := \<lparr>GetUsed = 0\<rparr>\<rparr>
   \<and> this_CalculateRequiredSecureMemorySize (example_platform ResultSuccess 0x80000000)
       ((this (example_system 0x100000))\<lparr>m_resource_limit := 0, m_resource_size := 0x10000,
                                          m_resource_pool := 0\<rparr>) = 0x10000
   \<and> this_CalculateRequiredSecureMemorySize (example_platform ResultSuccess 0x80000000)
       (this example_initialized) = 0x10000"
proof -
  have h1: "this example_initialized =
       (this example_initialized)\<lparr>m_memory_block_slab_manager := \<lparr>GetUsed = 0\<rparr>,
                                   m_block_info_manager := \<lparr>GetUsed = 0\<rparr>,
                                   m_page_table_manager := \<lparr>GetUsed = 0\<rparr>\<rparr>"
    by (simp add: example_initialized_def)
  from CalculateRequiredSecureMemorySize_same_at_Finalize [OF example_Initialize_success h1]
  show ?thesis
    using example_Initialize_success h1 by (simp add: example_secure_size)
qed

section \<open>The layout of the region\<close>

text \<open>
  Claim C7. After every successful \<^verbatim>\<open>Initialize\<close> the Dynamic Page Manager has been
  initialised with page granularity over the bytes from the region address plus the table
  size up to the region address plus the size: its base is the region address plus the
  page-aligned reference-count table size computed from the raw size, its length is the
  size minus that table size, which is smaller than the size.
\<close>

theorem Initialize_dynamic_page_manager_range:
  assumes "Initialize P sz h pool s = Returned (ResultSuccess, s1)"
  shows "dpm_address (m_dynamic_page_manager (this s1))
           = m_resource_address (this s1) + table_size P sz
       \<and> dpm_size (m_dynamic_page_manager (this s1)) = sz - table_size P sz
       \<and> dpm_align (m_dynamic_page_manager (this s1)) = PageSize P
       \<and> table_size P sz < sz
       \<and> unat (dpm_size (m_dynamic_page_manager (this s1))) = unat sz - unat (table_size P sz)
       \<and> dpm_address (m_dynamic_page_manager (this s1)) + dpm_size (m_dynamic_page_manager (this s1))
           = m_resource_address (this s1) + sz"
proof -
  from Initialize_SuccessD [OF assms(1)] obtain a k where
    *: "reservation_fits P sz h pool s" "platform_allocation P sz pool s = (ResultSuccess, a, k)"
    "a \<noteq> 0" "table_size P sz < sz" by blast
  from * have "unat (sz - table_size P sz) = unat sz - unat (table_size P sz)"
    by (simp add: unat_sub less_imp_le)
  with Initialize_success [OF *] assms(1) * show ?thesis
    by auto
qed

text \<open>
  Witness for C7: in the region of 64 KiB at \<open>0x80000000\<close> the page manager owns the
  fifteen pages from \<open>0x80001000\<close> to \<open>0x80010000\<close>.
\<close>

theorem Initialize_dynamic_page_manager_range_witness:
  "Initialize (example_platform ResultSuccess 0x80000000) 0x10000 0 0 (example_system 0x100000)
     = Returned (ResultSuccess, example_initialized)
   \<and> dpm_address (m_dynamic_page_manager (this example_initialized)) = 0x80001000
   \<and> dpm_size (m_dynamic_page_manager (this example_initialized)) = 0xF000
   \<and> dpm_align (m_dynamic_page_manager (this example_initialized)) = 0x1000
   \<and> dpm_address (m_dynamic_page_manager (this example_initialized))
       + dpm_size (m_dynamic_page_manager (this example_initialized)) = 0x80010000"
  using Initialize_dynamic_page_manager_range [OF example_Initialize_success]
    example_Initialize_success
  by (simp add: example_table_size_big example_platform_simps example_initialized_simps)

section \<open>Assertions and the initialized flag\<close>

text \<open>
  Claim C8. When the reservation has succeeded and the platform memory controller reports
  a successful allocation, a returned address of zero makes the assertion of line 28 fail,
  which ends the run instead of returning a result; so whenever \<^verbatim>\<open>Initialize\<close> returns
  after such an allocation, the stored region address is the one the platform gave and is
  not zero.
\<close>

theorem Initialize_zero_address_is_fatal:
  assumes "reservation_fits P sz h pool s"
      and "fst (platform_allocation P sz pool s) = ResultSuccess"
  shows "(fst (snd (platform_allocation P sz pool s)) = 0
            \<longrightarrow> Initialize P sz h pool s = AssertionFailed)
       \<and> (\<forall>r s'. Initialize P sz h pool s = Returned (r, s')
            \<longrightarrow> m_resource_address (this s') = fst (snd (platform_allocation P sz pool s))
              \<and> m_resource_address (this s') \<noteq> 0)"
proof -
  obtain a k where pa: "platform_allocation P sz pool s = (ResultSuccess, a, k)"
    using assms(2) by (cases "platform_allocation P sz pool s") auto
  show ?thesis
  proof (cases "a = 0")
    case True
    with assms(1) pa show ?thesis by (simp add: Initialize_zero_address)
  next
    case nz: False
    show ?thesis
    proof (cases "table_size P sz < sz")
      case True
      with assms(1) pa nz show ?thesis by (auto simp add: Initialize_success)
    next
      case False
      then have "sz \<le> table_size P sz" by (simp add: not_less)
      with assms(1) pa nz show ?thesis by (auto simp add: Initialize_table_too_big)
    qed
  qed
qed

text \<open>
  Witness for C8: a memory controller that reports success with address zero, and one
  that reports success with address \<open>0x80000000\<close>.
\<close>

theorem Initialize_zero_address_is_fatal_witness:
  "reservation_fits (example_platform ResultSuccess 0) 0x10000 0 0 (example_system 0x100000)
   \<and> fst (platform_allocation (example_platform ResultSuccess 0) 0x10000 0 (example_system 0x100000))
       = ResultSuccess
   \<and> fst (snd (platform_allocation (example_platform ResultSuccess 0) 0x10000 0
                 (example_system 0x100000))) = 0
   \<and> Initialize (example_platform ResultSuccess 0) 0x10000 0 0 (example_system 0x100000)
       = AssertionFailed
   \<and> reservation_fits (example_platform ResultSuccess 0x80000000) 0x10000 0 0 (example_system 0x100000)
   \<and> fst (platform_allocation (example_platform ResultSuccess 0x80000000) 0x10000 0
            (example_system 0x100000)) = ResultSuccess
   \<and> Initialize (example_platform ResultSuccess 0x80000000) 0x10000 0 0 (example_system 0x100000)
       = Returned (ResultSuccess, example_initialized)
   \<and> m_resource_address (this example_initialized) = 0x80000000
   \<and> m_resource_address (this example_initialized) \<noteq> 0"
proof -
  have a0: "fst (platform_allocation (example_platform ResultSuccess 0) 0x10000 0
                   (example_system 0x100000)) = ResultSuccess"
    and z: "fst (snd (platform_allocation (example_platform ResultSuccess 0) 0x10000 0
                   (example_system 0x100000))) = 0"
    and a1: "fst (platform_allocation (example_platform ResultSuccess 0x80000000) 0x10000 0
                   (example_system 0x100000)) = ResultSuccess"
    by (simp_all add: example_allocation)
  note zero = Initialize_zero_address_is_fatal [OF example_fits a0]
  note nonzero = Initialize_zero_address_is_fatal [OF example_fits a1]
  from zero z have "Initialize (example_platform ResultSuccess 0) 0x10000 0 0
      (example_system 0x100000) = AssertionFailed"
    by blast
  moreover from nonzero example_Initialize_success
  have "m_resource_address (this example_initialized)
          = fst (snd (platform_allocation (example_platform ResultSuccess 0x80000000) 0x10000 0
                        (example_system 0x100000)))
        \<and> m_resource_address (this example_initialized) \<noteq> 0"
    by blast
  ultimately show ?thesis
    using example_fits a0 z a1 example_Initialize_success
    by (simp add: example_allocation)
qed

text \<open>
  Claim C9. \<^verbatim>\<open>Initialize\<close> sets \<^verbatim>\<open>m_is_initialized\<close> exactly when it succeeds: after a
  successful run the flag is true; after every run that returns a failure (reservation,
  platform allocation or table-size check) the flag has the value it had before, so an
  object that was not initialized does not report itself initialized, although the
  resource-limit, size and pool members hold the arguments of the failed call.
\<close>

theorem Initialize_sets_flag_only_on_success:
  assumes "Initialize P sz h pool s = Returned (r, s')"
  shows "(r = ResultSuccess \<longrightarrow> m_is_initialized (this s'))
       \<and> (r \<noteq> ResultSuccess \<longrightarrow> m_is_initialized (this s') = m_is_initialized (this s))
       \<and> m_resource_limit (this s') = h
       \<and> m_resource_size (this s') = sz
       \<and> m_resource_pool (this s') = pool"
proof (cases "r = ResultSuccess")
  case True
  with assms have init: "Initialize P sz h pool s = Returned (ResultSuccess, s')" by simp
  from Initialize_SuccessD [OF init] obtain a k where
    "reservation_fits P sz h pool s" "platform_allocation P sz pool s = (ResultSuccess, a, k)"
    "a \<noteq> 0" "table_size P sz < sz" by blast
  from Initialize_success [OF this] init True show ?thesis by auto
next
  case False
  with Initialize_failureD [OF assms] show ?thesis by simp
qed

text \<open>
  Witness for C9: the refused region of one page leaves the flag false and the size member
  overwritten; the region of 64 KiB sets the flag.
\<close>

theorem Initialize_sets_flag_only_on_success_witness:
  "Initialize (example_platform ResultSuccess 0x80000000) 0x1000 0 0 (example_system 0x100)
     = Returned (ResultLimitReached, example_refused)
   \<and> ResultLimitReached \<noteq> ResultSuccess
   \<and> m_is_initialized (this (example_system 0x100)) = False
   \<and> m_is_initialized (this example_refused) = False
   \<and> m_resource_size (this (example_system 0x100)) = 0
   \<and> m_resource_size (this example_refused) = 0x1000
   \<and> Initialize (example_platform ResultSuccess 0x80000000) 0x10000 0 0 (example_system 0x100000)
       = Returned (ResultSuccess, example_initialized)
   \<and> m_is_initialized (this example_initialized) = True"
proof -
  note refused = Initialize_sets_flag_only_on_success [OF example_Initialize_refused]
  note succeeded = Initialize_sets_flag_only_on_success [OF example_Initialize_success]
  have c: "m_is_initialized (this (example_system 0x100)) = False"
    "m_resource_size (this (example_system 0x100)) = 0"
    by (simp_all add: example_system_def example_object_def)
  from refused succeeded show ?thesis
    using example_Initialize_refused example_Initialize_success
    by (simp add: c)
qed

section \<open>Completion of the profile selection\<close>

lemma SelectionComplete_unfold:
  "SelectionComplete E uuid a =
     (let sel = (case uuid of Some u \<Rightarrow> IsValid E u | None \<Rightarrow> False);
          output = (if sel then \<lparr>result = 0, uuid_selected = the uuid\<rparr>
                    else \<lparr>result = ucast (raw E ResultCancelledByUser),
                          uuid_selected = InvalidUUID E\<rparr>)
      in a\<lparr>status := (if sel then status a else ResultCancelledByUser),
           final_data := [],
           broker := broker a @
             [PushNormalDataFromApplet (return_arg_bytes E output), SignalStateChanged]\<rparr>)"
  by (simp add: SelectionComplete_def memcpy_def return_arg_bytes_def Let_def
        split: option.splits)

text \<open>
  Claim C10. For every call of \<^verbatim>\<open>SelectionComplete\<close>: if a UUID is present and valid, the
  status of the applet stays as it was and the pushed return argument carries the result
  code 0 and that UUID; otherwise the status becomes \<^verbatim>\<open>Account::ResultCancelledByUser\<close>
  and the pushed return argument carries that error's raw value and the invalid UUID; in
  both cases one buffer of exactly \<^verbatim>\<open>sizeof(UiReturnArg)\<close> bytes is pushed to the broker and
  then a state change is signalled.
\<close>

theorem SelectionComplete_pushes_return_arg:
  "(\<forall>u. uuid = Some u \<and> IsValid E u \<longrightarrow>
      status (SelectionComplete E uuid a) = status a
      \<and> broker (SelectionComplete E uuid a) = broker a @
          [PushNormalDataFromApplet (return_arg_bytes E \<lparr>result = 0, uuid_selected = u\<rparr>),
           SignalStateChanged])
   \<and> (\<not> (\<exists>u. uuid = Some u \<and> IsValid E u) \<longrightarrow>
      status (SelectionComplete E uuid a) = ResultCancelledByUser
      \<and> broker (SelectionComplete E uuid a) = broker a @
          [PushNormalDataFromApplet (return_arg_bytes E
             \<lparr>result = ucast (raw E ResultCancelledByUser), uuid_selected = InvalidUUID E\<rparr>),
           SignalStateChanged])
   \<and> (\<exists>buf. broker (SelectionComplete E uuid a) = broker a @
                [PushNormalDataFromApplet buf, SignalStateChanged]
          \<and> length buf = sizeof_UiReturnArg E)"
  by (cases uuid) (simp_all add: SelectionComplete_unfold return_arg_bytes_def Let_def)

text \<open>
  Witness for C10: the user with UUID 5 is selected; the selection is cancelled; the
  frontend hands back the invalid UUID.
\<close>

theorem SelectionComplete_pushes_return_arg_witness:
  "IsValid example_applet_platform 5
   \<and> status (SelectionComplete example_applet_platform (Some 5) example_applet) = ResultSuccess
   \<and> broker (SelectionComplete example_applet_platform (Some 5) example_applet) =
       [PushNormalDataFromApplet
          (return_arg_bytes example_applet_platform \<lparr>result = 0, uuid_selected = 5\<rparr>),
        SignalStateChanged]
   \<and> length (return_arg_bytes example_applet_platform \<lparr>result = 0, uuid_selected = 5\<rparr>) = 24
   \<and> status (SelectionComplete example_applet_platform None example_applet)
       = ResultCancelledByUser
   \<and> broker (SelectionComplete example_applet_platform None example_applet) =
       [PushNormalDataFromApplet
          (return_arg_bytes example_applet_platform \<lparr>result = 636, uuid_selected = 0\<rparr>),
        SignalStateChanged]
   \<and> \<not> IsValid example_applet_platform 0
   \<and> status (SelectionComplete example_applet_platform (Some 0) example_applet)
       = ResultCancelledByUser
   \<and> broker (SelectionComplete example_applet_platform (Some 0) example_applet) =
       [PushNormalDataFromApplet
          (return_arg_bytes example_applet_platform \<lparr>result = 636, uuid_selected = 0\<rparr>),
        SignalStateChanged]"
proof -
  have c: "status example_applet = ResultSuccess" "broker example_applet = []"
    by (simp_all add: example_applet_def)
  have l: "length (return_arg_bytes example_applet_platform \<lparr>result = 0, uuid_selected = 5\<rparr>) = 24"
    by (simp add: return_arg_bytes_def example_applet_platform_simps)
  from SelectionComplete_pushes_return_arg [of "Some 5" example_applet_platform example_applet]
       SelectionComplete_pushes_return_arg [of None example_applet_platform example_applet]
       SelectionComplete_pushes_return_arg [of "Some 0" example_applet_platform example_applet]
  show ?thesis
    by (simp add: c l example_applet_platform_simps)
qed

end
